theory Spec2Isabelle
  imports Main "HOL-Library.Word"
begin

unbundle bit_operations_syntax

section \<open>Data model\<close>

text \<open>
  The user document of \<^verbatim>\<open>models/UserModel.js\<close>. A path that a document may lack
  (JavaScript \<^verbatim>\<open>undefined\<close>) is an option. Dates are milliseconds since the epoch, as
  \<^verbatim>\<open>Date.now()\<close> and \<^verbatim>\<open>getTime()\<close> give them. The field \<open>uid\<close> is the document's
  \<^verbatim>\<open>_id\<close>.
\<close>

type_synonym millis = int

record user =
  uid :: nat
  username :: "string option"
  email :: "string option"
  password :: "string option"
  passwordConfirm :: "string option"
  role :: "string option"
  phoneNumber :: "string option"
  address :: "string option"
  city :: "string option"
  zipCode :: "string option"
  country :: "string option"
  passwordChangedAt :: "millis option"
  passwordResetToken :: "string option"
  passwordResetExpires :: "millis option"

text \<open>The users collection, in the order in which the store scans it.\<close>

type_synonym store = "user list"

text \<open>The payload of a verified bearer token: the subject and the issue time in seconds.\<close>

record payload =
  pid :: nat
  iat :: int

text \<open>The message handed to \<^verbatim>\<open>sendEmail\<close>.\<close>

record mail =
  mail_email :: "string option"
  mail_subject :: string
  mail_message :: string

text \<open>
  A value of the JSON body of a request: absent, a string, or a number. A number is an
  integer that JavaScript holds exactly and prints in plain decimal.
\<close>

datatype jsval = Undefined | Str string | Num int

text \<open>
  The part of the request the handlers read. \<^verbatim>\<open>signupUser\<close> passes the whole body to
  \<^verbatim>\<open>User.create\<close>, so the body has a field for every path of the schema; the fields
  of \<^verbatim>\<open>location\<close> are listed flat, and the two dates are milliseconds or absent.
\<close>

record body =
  body_username :: jsval
  body_email :: jsval
  body_password :: jsval
  body_passwordConfirm :: jsval
  body_passwordCurrent :: jsval
  body_role :: jsval
  body_phoneNumber :: jsval
  body_address :: jsval
  body_city :: jsval
  body_zipCode :: jsval
  body_country :: jsval
  body_passwordChangedAt :: "millis option"
  body_passwordResetToken :: jsval
  body_passwordResetExpires :: "millis option"

record request =
  headers_authorization :: "string option"
  cookies_jwt :: "string option"
  params_token :: string
  params_id :: nat
  req_body :: body

text \<open>
  What a handler does with the response: \<open>Respond\<close> is
  \<^verbatim>\<open>res.status(code).json({status, message})\<close>, \<open>SendToken\<close> is the reply of
  \<^verbatim>\<open>createSendToken\<close> (status code, token, user), \<open>Next\<close> is \<^verbatim>\<open>next()\<close> with
  nothing attached, \<open>NextUser\<close> is \<^verbatim>\<open>next()\<close> after the middleware attached the
  resolved user, \<open>NextError\<close> is \<^verbatim>\<open>next(new AppError(message, code))\<close>, and \<open>Thrown\<close>
  is an exception that \<^verbatim>\<open>catchAsync\<close> passes to \<^verbatim>\<open>next\<close>.
\<close>

datatype outcome =
    Respond nat string string
  | SendToken nat string user
  | Next
  | NextUser user
  | NextError string nat
  | Thrown string

section \<open>External collaborators\<close>

text \<open>
  The libraries and the configuration the code calls are parameters of the model: the
  SHA-256 hex digest of \<^verbatim>\<open>crypto\<close>, \<^verbatim>\<open>bcrypt.hash\<close> (plaintext, cost, the random
  bytes it draws for the salt) and \<^verbatim>\<open>bcrypt.compare\<close> on two strings (its answer, or
  the message of the error it rejects with), \<^verbatim>\<open>jwt.sign\<close> and
  \<^verbatim>\<open>jwt.verify\<close> under the configured secret and lifetime (subject and clock to token;
  token and clock to payload, \<open>None\<close> when verification throws), \<^verbatim>\<open>sendEmail\<close> (\<open>False\<close>
  when it throws), \<^verbatim>\<open>process.env.FRONTEND_URL\<close>, and the three regular expressions of
  the schema's validators.
\<close>

type_synonym entropy = "nat \<Rightarrow> 8 word"

record services =
  sha256 :: "string \<Rightarrow> string"
  bcrypt_hash :: "string \<Rightarrow> nat \<Rightarrow> entropy \<Rightarrow> string"
  bcrypt_compare :: "string \<Rightarrow> string \<Rightarrow> string + bool"
  jwt_sign :: "nat \<Rightarrow> millis \<Rightarrow> string"
  jwt_verify :: "string \<Rightarrow> millis \<Rightarrow> payload option"
  sendEmail :: "mail \<Rightarrow> bool"
  FRONTEND_URL :: string
  email_regex :: "string \<Rightarrow> bool"
  phone_regex :: "string \<Rightarrow> bool"
  postcode_regex :: "string \<Rightarrow> bool"

section \<open>Helpers for JavaScript values\<close>

text \<open>A string or \<^verbatim>\<open>undefined\<close> in a condition: only a non-empty string is truthy.\<close>

definition truthy :: "string option \<Rightarrow> bool" where
  "truthy s = (case s of None \<Rightarrow> False | Some x \<Rightarrow> x \<noteq> [])"

text \<open>A value of the body in a condition: a non-empty string or a number other than 0.\<close>

definition truthy_val :: "jsval \<Rightarrow> bool" where
  "truthy_val v = (case v of Undefined \<Rightarrow> False | Str x \<Rightarrow> x \<noteq> [] | Num n \<Rightarrow> n \<noteq> 0)"

text \<open>\<^verbatim>\<open>typeof v\<close>.\<close>

definition typeof :: "jsval \<Rightarrow> string" where
  "typeof v = (case v of Undefined \<Rightarrow> ''undefined'' | Str _ \<Rightarrow> ''string''
               | Num _ \<Rightarrow> ''number'')"

text \<open>\<^verbatim>\<open>n.toString()\<close> for an integer: its decimal digits, after a minus sign when it is
  negative.\<close>

function digits_of :: "nat \<Rightarrow> string" where
  "digits_of n =
     (if n < 10 then [''0123456789'' ! n]
      else digits_of (n div 10) @ [''0123456789'' ! (n mod 10)])"
  by pat_completeness auto
termination
  by (relation "measure id") auto

declare digits_of.simps [simp del]

definition number_toString :: "int \<Rightarrow> string" where
  "number_toString n = (if n < 0 then ''-'' @ digits_of (nat (- n)) else digits_of (nat n))"

text \<open>
  The cast of a value to a path of type String, on assignment to a document and in a
  query filter: \<^verbatim>\<open>undefined\<close> stays, a string stays, a number becomes its
  \<^verbatim>\<open>toString()\<close>.
\<close>

definition cast_string :: "jsval \<Rightarrow> string option" where
  "cast_string v = (case v of Undefined \<Rightarrow> None | Str x \<Rightarrow> Some x
                    | Num n \<Rightarrow> Some (number_toString n))"

text \<open>
  The setters \<^verbatim>\<open>lowercase: true\<close> and \<^verbatim>\<open>trim: true\<close> of the schema, on strings of
  bytes: \<^verbatim>\<open>toLowerCase()\<close> maps the letters A to Z to a to z, and \<^verbatim>\<open>trim()\<close> drops
  the white space (space, tab, line feed, vertical tab, form feed, carriage return) at
  both ends.
\<close>

definition lower_char :: "char \<Rightarrow> char" where
  "lower_char c =
     (let n = (of_char c :: nat) in if 65 \<le> n \<and> n \<le> 90 then char_of (n + 32) else c)"

definition toLowerCase :: "string \<Rightarrow> string" where
  "toLowerCase s = map lower_char s"



text \<open>\<^verbatim>\<open>s.split(" ")\<close>: the pieces between single spaces, empty pieces included.\<close>

fun split_space :: "string \<Rightarrow> string list" where
  "split_space [] = [[]]"
| "split_space (c # cs) =
     (if c = CHR '' '' then [] # split_space cs
      else (case split_space cs of
              [] \<Rightarrow> [[c]]
            | w # ws \<Rightarrow> (c # w) # ws))"

text \<open>\<^verbatim>\<open>xs[1]\<close>: the second element, or \<^verbatim>\<open>undefined\<close>.\<close>

definition second :: "'a list \<Rightarrow> 'a option" where
  "second xs = (case xs of _ # y # _ \<Rightarrow> Some y | _ \<Rightarrow> None)"

text \<open>
  \<^verbatim>\<open>parseInt(ms / 1000, 10)\<close> on an integer number of milliseconds: the quotient
  with its fraction cut off, towards zero.
\<close>

definition seconds_of :: "millis \<Rightarrow> int" where
  "seconds_of ms = (if ms < 0 then - ((- ms) div 1000) else ms div 1000)"

section \<open>The store\<close>

text \<open>
  The schema declares \<^verbatim>\<open>password\<close> with \<^verbatim>\<open>select: false\<close>: a query returns the
  document without it unless the query says \<^verbatim>\<open>.select("+password")\<close>.
\<close>

definition deselect :: "user \<Rightarrow> user" where
  "deselect u = u\<lparr>password := None\<rparr>"

text \<open>\<^verbatim>\<open>User.findById(id)\<close> and \<^verbatim>\<open>User.findOne(filter)\<close>: the first matching document;
  the ids of the documents of a collection are distinct.\<close>

definition findById :: "nat \<Rightarrow> store \<Rightarrow> user option" where
  "findById i st = map_option deselect (find (\<lambda>u. uid u = i) st)"

definition findById_select_password :: "nat \<Rightarrow> store \<Rightarrow> user option" where
  "findById_select_password i st = find (\<lambda>u. uid u = i) st"

definition findOne :: "(user \<Rightarrow> bool) \<Rightarrow> store \<Rightarrow> user option" where
  "findOne p st = map_option deselect (find p st)"

definition findOne_select_password :: "(user \<Rightarrow> bool) \<Rightarrow> store \<Rightarrow> user option" where
  "findOne_select_password p st = find p st"

text \<open>
  The filter \<^verbatim>\<open>{ email: value }\<close>: the ODM casts the value to the path's type and runs
  the path's \<^verbatim>\<open>lowercase\<close> setter on it before the store compares.
\<close>

definition email_filter :: "jsval \<Rightarrow> user \<Rightarrow> bool" where
  "email_filter v u = (email u = map_option toLowerCase (cast_string v))"

text \<open>The update that \<^verbatim>\<open>save()\<close> sends for a loaded document: the first document with that id.\<close>

fun updateOne :: "nat \<Rightarrow> (user \<Rightarrow> user) \<Rightarrow> store \<Rightarrow> store" where
  "updateOne i f [] = []"
| "updateOne i f (v # vs) = (if uid v = i then f v # vs else v # updateOne i f vs)"

section \<open>Methods of the user model\<close>

text \<open>\<^verbatim>\<open>correctPassword(candidatePassword, userPassword)\<close>, UserModel.js lines 121 to 126.
  \<^verbatim>\<open>bcrypt.compare\<close> rejects an argument that is not a string.\<close>

definition correctPassword ::
  "services \<Rightarrow> jsval \<Rightarrow> string option \<Rightarrow> string + bool" where
  "correctPassword sv candidatePassword userPassword =
     (case (candidatePassword, userPassword) of
        (Str c, Some h) \<Rightarrow> bcrypt_compare sv c h
      | _ \<Rightarrow> Inl (''Illegal arguments: '' @ typeof candidatePassword @ '', ''
                  @ (case userPassword of None \<Rightarrow> ''undefined'' | Some _ \<Rightarrow> ''string'')))"

text \<open>\<^verbatim>\<open>changedPasswordAfter(JWTTimestamp)\<close>, UserModel.js lines 128 to 137.\<close>

definition changedPasswordAfter :: "user \<Rightarrow> int \<Rightarrow> bool" where
  "changedPasswordAfter u JWTTimestamp =
     (case passwordChangedAt u of
        Some t \<Rightarrow> (let changedTimestamp = seconds_of t in JWTTimestamp < changedTimestamp)
      | None \<Rightarrow> False)"

text \<open>\<^verbatim>\<open>crypto.randomBytes(n)\<close> and \<^verbatim>\<open>.toString("hex")\<close>.\<close>

definition randomBytes :: "nat \<Rightarrow> entropy \<Rightarrow> 8 word list" where
  "randomBytes n ent = map ent [0..<n]"

definition hex_digit :: "8 word \<Rightarrow> char" where
  "hex_digit n = ''0123456789abcdef'' ! unat (n AND 15)"

fun toHex :: "8 word list \<Rightarrow> string" where
  "toHex [] = []"
| "toHex (b # bs) = hex_digit (drop_bit 4 b) # hex_digit b # toHex bs"

text \<open>\<^verbatim>\<open>createPasswordResetToken()\<close>, UserModel.js lines 139 to 150: the raw token
  returned and the document with the two reset fields assigned.\<close>

definition createPasswordResetToken ::
  "services \<Rightarrow> millis \<Rightarrow> entropy \<Rightarrow> user \<Rightarrow> string \<times> user" where
  "createPasswordResetToken sv now ent u =
     (let resetToken = toHex (randomBytes 32 ent)
      in (resetToken,
          u\<lparr>passwordResetToken := Some (sha256 sv resetToken),
            passwordResetExpires := Some (now + 10 * 60 * 1000)\<rparr>))"

section \<open>Schema validation\<close>

text \<open>
  The validators of the schema, UserModel.js lines 7 to 92, as the ODM runs them on
  \<^verbatim>\<open>save()\<close>: \<^verbatim>\<open>required\<close> wants a non-empty string, every other validator is
  skipped on \<^verbatim>\<open>undefined\<close>, and a path reports its first failing validator.
\<close>

definition minlength :: "nat \<Rightarrow> string option \<Rightarrow> bool" where
  "minlength n v = (case v of None \<Rightarrow> True | Some s \<Rightarrow> n \<le> length s)"

definition matches :: "(string \<Rightarrow> bool) \<Rightarrow> string option \<Rightarrow> bool" where
  "matches re v = (case v of None \<Rightarrow> True | Some s \<Rightarrow> re s)"

definition role_enum :: "string list" where
  "role_enum = [''customer'', ''engineer'', ''admin'']"

definition in_enum :: "string list \<Rightarrow> string option \<Rightarrow> bool" where
  "in_enum vs v = (case v of None \<Rightarrow> True | Some s \<Rightarrow> s \<in> set vs)"

fun first_failure :: "(bool \<times> string) list \<Rightarrow> string option" where
  "first_failure [] = None"
| "first_failure ((ok, msg) # rest) = (if ok then first_failure rest else Some msg)"

definition path_validators :: "services \<Rightarrow> user \<Rightarrow> (string \<times> (bool \<times> string) list) list" where
  "path_validators sv u =
     [(''username'',
         [(truthy (username u), ''Please provide a username''),
          (minlength 1 (username u), ''Username cannot be empty'')]),
      (''email'',
         [(truthy (email u), ''Please provide an email''),
          (matches (email_regex sv) (email u), ''Please provide a valid email'')]),
      (''password'',
         [(truthy (password u), ''Please provide a password''),
          (minlength 8 (password u), ''Password must be at least 8 characters'')]),
      (''passwordConfirm'',
         [(truthy (passwordConfirm u), ''Please confirm your password''),
          (minlength 8 (passwordConfirm u),
             ''Password confirmation must be at least 8 characters''),
          (passwordConfirm u = password u, ''Passwords are not the same'')]),
      (''role'',
         [(in_enum role_enum (role u), ''Role must be either customer, engineer, or admin'')]),
      (''phoneNumber'',
         [(truthy (phoneNumber u), ''Please provide a phone number''),
          (matches (phone_regex sv) (phoneNumber u), ''Please provide a valid UK phone number'')]),
      (''location.address'',
         [(truthy (address u), ''Please provide an address''),
          (minlength 1 (address u), ''Address cannot be empty'')]),
      (''location.city'',
         [(truthy (city u), ''Please provide a city''),
          (minlength 1 (city u), ''City cannot be empty'')]),
      (''location.zipCode'',
         [(truthy (zipCode u), ''Please provide a postcode''),
          (matches (postcode_regex sv) (zipCode u), ''Please provide a valid UK postcode'')]),
      (''location.country'',
         [(truthy (country u), ''Please provide a country'')])]"

fun path_errors :: "(string \<times> (bool \<times> string) list) list \<Rightarrow> string list" where
  "path_errors [] = []"
| "path_errors ((path, vs) # rest) =
     (case first_failure vs of
        None \<Rightarrow> path_errors rest
      | Some msg \<Rightarrow> (path @ '': '' @ msg) # path_errors rest)"

fun join_comma :: "string list \<Rightarrow> string" where
  "join_comma [] = []"
| "join_comma [x] = x"
| "join_comma (x # y # zs) = x @ '', '' @ join_comma (y # zs)"

text \<open>The message of the validation error, or \<open>None\<close> when the document is valid.\<close>

definition validation_error :: "services \<Rightarrow> user \<Rightarrow> string option" where
  "validation_error sv u =
     (case path_errors (path_validators sv u) of
        [] \<Rightarrow> None
      | e # es \<Rightarrow> Some (''User validation failed: '' @ join_comma (e # es)))"

section \<open>The pre-save hooks and save\<close>

text \<open>
  The first hook, UserModel.js lines 106 to 112. \<open>modified\<close> is
  \<^verbatim>\<open>this.isModified("password")\<close>. \<^verbatim>\<open>bcrypt.hash\<close> rejects a plaintext that is not
  a string.
\<close>

definition pre_save_hash :: "services \<Rightarrow> entropy \<Rightarrow> bool \<Rightarrow> user \<Rightarrow> string + user" where
  "pre_save_hash sv ent modified u =
     (if \<not> modified then Inr u
      else (case password u of
              None \<Rightarrow> Inl ''Illegal arguments: undefined, number''
            | Some p \<Rightarrow>
                Inr (u\<lparr>password := Some (bcrypt_hash sv p 12 ent),
                       passwordConfirm := None\<rparr>)))"

text \<open>The second hook, UserModel.js lines 114 to 119.\<close>

definition pre_save_changedAt :: "millis \<Rightarrow> bool \<Rightarrow> bool \<Rightarrow> user \<Rightarrow> user" where
  "pre_save_changedAt now modified isNew u =
     (if \<not> modified \<or> isNew then u
      else u\<lparr>passwordChangedAt := Some (now - 1000)\<rparr>)"

text \<open>
  \<^verbatim>\<open>doc.save(options)\<close> on a loaded document: validation unless
  \<^verbatim>\<open>validateBeforeSave: false\<close>, then the two hooks, then the write. The write
  leaves the stored password alone unless the path was modified, since a query without
  \<^verbatim>\<open>+password\<close> never loaded it. The result is the error message, or the document
  in memory after the hooks and the new store.
\<close>

definition save ::
  "services \<Rightarrow> millis \<Rightarrow> entropy \<Rightarrow> bool \<Rightarrow> bool \<Rightarrow> user \<Rightarrow> store
     \<Rightarrow> string + (user \<times> store)" where
  "save sv now ent validateBeforeSave modified u st =
     (case (if validateBeforeSave then validation_error sv u else None) of
        Some msg \<Rightarrow> Inl msg
      | None \<Rightarrow>
          (case pre_save_hash sv ent modified u of
             Inl msg \<Rightarrow> Inl msg
           | Inr u1 \<Rightarrow>
               (let u2 = pre_save_changedAt now modified False u1
                in Inr (u2,
                        updateOne (uid u2)
                          (\<lambda>stored. u2\<lparr>password :=
                                          (if modified then password u2
                                           else password stored)\<rparr>) st))))"

section \<open>Token issuing\<close>

text \<open>\<^verbatim>\<open>signToken\<close> and \<^verbatim>\<open>createSendToken\<close>, controller lines 14 to 39. The cookie
  carries the same token as the body.\<close>

definition signToken :: "services \<Rightarrow> millis \<Rightarrow> nat \<Rightarrow> string" where
  "signToken sv now i = jwt_sign sv i now"

definition createSendToken :: "services \<Rightarrow> millis \<Rightarrow> user \<Rightarrow> nat \<Rightarrow> outcome" where
  "createSendToken sv now u statusCode =
     (let token = signToken sv now (uid u)
      in SendToken statusCode token (u\<lparr>password := None\<rparr>))"

section \<open>Login\<close>

text \<open>\<^verbatim>\<open>login\<close>, controller lines 79 to 102.\<close>

definition login :: "services \<Rightarrow> store \<Rightarrow> millis \<Rightarrow> request \<Rightarrow> outcome" where
  "login sv st now req =
     (let email' = body_email (req_body req); password' = body_password (req_body req)
      in if \<not> truthy_val email' \<or> \<not> truthy_val password'
         then Respond 400 ''fail'' ''Please provide email and password''
         else
           (case findOne_select_password (email_filter email') st of
              None \<Rightarrow> Respond 401 ''fail'' ''Incorrect email or password''
            | Some u \<Rightarrow>
                (case correctPassword sv password' (password u) of
                   Inl err \<Rightarrow> Thrown err
                 | Inr ok \<Rightarrow>
                     if \<not> ok then Respond 401 ''fail'' ''Incorrect email or password''
                     else createSendToken sv now u 200)))"

section \<open>Access-control middleware\<close>

text \<open>\<^verbatim>\<open>isLoggedIn\<close>, controller lines 113 to 142.\<close>

definition isLoggedIn :: "services \<Rightarrow> store \<Rightarrow> millis \<Rightarrow> request \<Rightarrow> outcome" where
  "isLoggedIn sv st now req =
     (case cookies_jwt req of
        None \<Rightarrow> Next
      | Some c \<Rightarrow>
          if c = [] then Next
          else
            (case jwt_verify sv c now of
               None \<Rightarrow> Next
             | Some decoded \<Rightarrow>
                 (case findById (pid decoded) st of
                    None \<Rightarrow> Next
                  | Some currentUser \<Rightarrow>
                      if changedPasswordAfter currentUser (iat decoded) then Next
                      else NextUser currentUser)))"

text \<open>The token that \<^verbatim>\<open>protect\<close> reads: from the header when it starts with
  \<^verbatim>\<open>Bearer\<close>, else from the cookie.\<close>

definition bearer_token :: "request \<Rightarrow> string option" where
  "bearer_token req =
     (let cookie = (if truthy (cookies_jwt req) then cookies_jwt req else None)
      in case headers_authorization req of
           None \<Rightarrow> cookie
         | Some h \<Rightarrow>
             if h \<noteq> [] \<and> take 6 h = ''Bearer'' then second (split_space h)
             else cookie)"

text \<open>\<^verbatim>\<open>protect\<close>, controller lines 144 to 190.\<close>

definition protect :: "services \<Rightarrow> store \<Rightarrow> millis \<Rightarrow> request \<Rightarrow> outcome" where
  "protect sv st now req =
     (case bearer_token req of
        None \<Rightarrow> Respond 401 ''fail'' ''You are not logged in! Please log in to get access.''
      | Some token \<Rightarrow>
          if token = []
          then Respond 401 ''fail'' ''You are not logged in! Please log in to get access.''
          else
            (case jwt_verify sv token now of
               None \<Rightarrow> Respond 401 ''fail'' ''Invalid token. Please log in again!''
             | Some decoded \<Rightarrow>
                 (case findById (pid decoded) st of
                    None \<Rightarrow>
                      Respond 401 ''fail''
                        ''The user belonging to this token no longer exists.''
                  | Some currentUser \<Rightarrow>
                      if changedPasswordAfter currentUser (iat decoded)
                      then Respond 401 ''fail''
                             ''User recently changed password! Please log in again.''
                      else NextUser currentUser)))"

text \<open>\<^verbatim>\<open>adminProtection\<close>, controller lines 366 to 374.\<close>

definition adminProtection :: "store \<Rightarrow> request \<Rightarrow> outcome" where
  "adminProtection st req =
     (case findById (params_id req) st of
        None \<Rightarrow> Next
      | Some u \<Rightarrow>
          if role u = Some ''Admin'' then NextError ''admin acc can't be changed'' 401
          else Next)"

section \<open>Password flows\<close>

text \<open>
  Each handler reads the clock and the random source through the parameters \<open>now\<close>
  and \<open>ent\<close> and returns its response with the new store.

  \<^verbatim>\<open>forgotPassword\<close>, controller lines 205 to 252. An exception in the inner
  \<^verbatim>\<open>catch\<close> block reaches the outer one.
\<close>

definition forgotPassword ::
  "services \<Rightarrow> store \<Rightarrow> millis \<Rightarrow> entropy \<Rightarrow> request \<Rightarrow> outcome \<times> store" where
  "forgotPassword sv st now ent req =
     (case findOne (email_filter (body_email (req_body req))) st of
        None \<Rightarrow> (Respond 404 ''fail'' ''There is no user with email address.'', st)
      | Some u \<Rightarrow>
          (let (resetToken, u1) = createPasswordResetToken sv now ent u
           in case save sv now ent False False u1 st of
                Inl msg \<Rightarrow> (Respond 400 ''fail'' msg, st)
              | Inr (u2, st1) \<Rightarrow>
                  (let resetURL = FRONTEND_URL sv @ ''/change-password?token='' @ resetToken
                   in if sendEmail sv
                           \<lparr>mail_email = email u2,
                            mail_subject = ''Your password reset token (valid for 10 min)'',
                            mail_message = resetURL\<rparr>
                      then (Respond 200 ''success'' ''Token sent to email!'', st1)
                      else
                        (let u3 = u2\<lparr>passwordResetToken := None,
                                     passwordResetExpires := None\<rparr>
                         in case save sv now ent False False u3 st1 of
                              Inl msg \<Rightarrow> (Respond 400 ''fail'' msg, st1)
                            | Inr (u4, st2) \<Rightarrow>
                                (Respond 500 ''fail''
                                   ''There was an error sending the email. Try again later!'',
                                 st2)))))"

text \<open>The filter of the query in \<^verbatim>\<open>resetPassword\<close>: the stored hash equals
  \<open>hashedToken\<close> and the stored expiry is greater than the clock.\<close>

definition reset_filter :: "string \<Rightarrow> millis \<Rightarrow> user \<Rightarrow> bool" where
  "reset_filter hashedToken now u =
     (passwordResetToken u = Some hashedToken
      \<and> (case passwordResetExpires u of None \<Rightarrow> False | Some e \<Rightarrow> now < e))"

text \<open>
  \<^verbatim>\<open>resetPassword\<close>, controller lines 254 to 305. An assignment to a path of the
  document casts the value to a string. The document was loaded without its password,
  so assigning \<^verbatim>\<open>user.password\<close> always marks the path modified.
\<close>

definition resetPassword ::
  "services \<Rightarrow> store \<Rightarrow> millis \<Rightarrow> entropy \<Rightarrow> request \<Rightarrow> outcome \<times> store" where
  "resetPassword sv st now ent req =
     (let hashedToken = sha256 sv (params_token req)
      in case findOne (reset_filter hashedToken now) st of
           None \<Rightarrow> (Respond 400 ''fail'' ''Token is invalid or has expired'', st)
         | Some u \<Rightarrow>
             (let u1 = u\<lparr>password := cast_string (body_password (req_body req)),
                          passwordConfirm := cast_string (body_passwordConfirm (req_body req)),
                          passwordResetToken := None,
                          passwordResetExpires := None\<rparr>
              in case save sv now ent True True u1 st of
                   Inl msg \<Rightarrow> (Respond 400 ''fail'' msg, st)
                 | Inr (u2, st1) \<Rightarrow> (createSendToken sv now u2 200, st1)))"

text \<open>
  \<^verbatim>\<open>updatePassword\<close>, controller lines 331 to 364, behind \<^verbatim>\<open>protect\<close>, which attached
  \<open>req_user\<close>. The document was loaded with its password, so the assignment marks the
  path modified when the new value differs from the loaded one.
\<close>

definition updatePassword ::
  "services \<Rightarrow> store \<Rightarrow> millis \<Rightarrow> entropy \<Rightarrow> user \<Rightarrow> request \<Rightarrow> outcome \<times> store" where
  "updatePassword sv st now ent req_user req =
     (case findById_select_password (uid req_user) st of
        None \<Rightarrow> (Respond 404 ''fail'' ''User not found'', st)
      | Some u \<Rightarrow>
          (case correctPassword sv (body_passwordCurrent (req_body req)) (password u) of
             Inl msg \<Rightarrow> (Respond 400 ''fail'' msg, st)
           | Inr ok \<Rightarrow>
               if \<not> ok then (Respond 401 ''fail'' ''Your current password is wrong.'', st)
               else
                 (let u1 = u\<lparr>password := cast_string (body_password (req_body req)),
                              passwordConfirm :=
                                cast_string (body_passwordConfirm (req_body req))\<rparr>;
                      modified = (cast_string (body_password (req_body req)) \<noteq> password u)
                  in case save sv now ent True modified u1 st of
                       Inl msg \<Rightarrow> (Respond 400 ''fail'' msg, st)
                     | Inr (u2, st1) \<Rightarrow> (createSendToken sv now u2 200, st1))))"

section \<open>Signup\<close>




section \<open>The bcryptjs library\<close>













section \<open>Stand-ins for the collaborators, for running the model\<close>

text \<open>
  Simple functions in the place of the libraries, so that the handlers can be run on
  concrete requests. The token \<open>''t5''\<close> verifies as subject 1 issued at second 5,
  \<open>''t4''\<close> as the same subject issued at second 4; every email delivery fails.
\<close>

definition test_services :: services where
  "test_services =
     \<lparr>sha256 = (\<lambda>s. ''h('' @ s @ '')''),
      bcrypt_hash = (\<lambda>p cost ent. ''$2a$'' @ [hex_digit (ent 0)] @ ''$'' @ p),
      bcrypt_compare = (\<lambda>p h. Inr (drop 6 h = p)),
      jwt_sign = (\<lambda>i now. ''t5''),
      jwt_verify = (\<lambda>t now. if t = ''t5'' then Some \<lparr>pid = 1, iat = 5\<rparr>
                             else if t = ''t4'' then Some \<lparr>pid = 1, iat = 4\<rparr>
                             else None),
      sendEmail = (\<lambda>m. False),
      FRONTEND_URL = ''https://front'',
      email_regex = (\<lambda>s. CHR ''@'' \<in> set s),
      phone_regex = (\<lambda>s. take 1 s = ''0''),
      postcode_regex = (\<lambda>s. s \<noteq> [])\<rparr>"

text \<open>Two random sources: one that yields 0 at every draw, one that yields the bytes
  203, 196, 189 and so on.\<close>

definition zero_entropy :: entropy where
  "zero_entropy = (\<lambda>i. 0)"

definition test_entropy :: entropy where
  "test_entropy = (\<lambda>i. 203 - 7 * of_nat i)"



text \<open>Documents and requests used to run the handlers.\<close>

definition alice :: user where
  "alice =
     \<lparr>uid = 1, username = Some ''alice'', email = Some ''a@b.com'',
      password = Some ''$2a$0$oldsecret'', passwordConfirm = None,
      role = Some ''customer'', phoneNumber = Some ''07123456789'',
      address = Some ''1 High Street'', city = Some ''Leeds'', zipCode = Some ''LS1 1AA'',
      country = Some ''United Kingdom'',
      passwordChangedAt = None, passwordResetToken = None, passwordResetExpires = None\<rparr>"

definition carol :: user where
  "carol = alice\<lparr>passwordChangedAt := Some 5000\<rparr>"

definition dave :: user where
  "dave = alice\<lparr>passwordResetToken := Some ''h(tok)'', passwordResetExpires := Some 601000\<rparr>"

definition erin :: user where
  "erin = dave\<lparr>uid := 2, username := Some ''erin'', email := Some ''e@b.com''\<rparr>"

definition frank :: user where
  "frank = erin\<lparr>uid := 3, username := Some ''frank'', email := Some ''f@b.com'',
                passwordResetToken := Some ''h(other)''\<rparr>"

definition empty_body :: body where
  "empty_body =
     \<lparr>body_username = Undefined, body_email = Undefined, body_password = Undefined,
      body_passwordConfirm = Undefined, body_passwordCurrent = Undefined,
      body_role = Undefined, body_phoneNumber = Undefined, body_address = Undefined,
      body_city = Undefined, body_zipCode = Undefined, body_country = Undefined,
      body_passwordChangedAt = None, body_passwordResetToken = Undefined,
      body_passwordResetExpires = None\<rparr>"

definition empty_request :: request where
  "empty_request =
     \<lparr>headers_authorization = None, cookies_jwt = None, params_token = [],
      params_id = 0, req_body = empty_body\<rparr>"

definition bearer_request :: "string \<Rightarrow> request" where
  "bearer_request t = empty_request\<lparr>headers_authorization := Some (''Bearer '' @ t)\<rparr>"

definition reset_request :: request where
  "reset_request =
     empty_request\<lparr>params_token := ''tok'',
       req_body := empty_body\<lparr>body_password := Str ''newsecret'',
                               body_passwordConfirm := Str ''newsecret''\<rparr>\<rparr>"

definition forgot_request :: request where
  "forgot_request = empty_request\<lparr>req_body := empty_body\<lparr>body_email := Str ''A@B.com''\<rparr>\<rparr>"

definition login_request :: "string \<Rightarrow> jsval \<Rightarrow> request" where
  "login_request e p =
     empty_request\<lparr>req_body := empty_body\<lparr>body_email := Str e, body_password := p\<rparr>\<rparr>"

definition update_request :: "string \<Rightarrow> request" where
  "update_request cur =
     empty_request\<lparr>req_body := empty_body\<lparr>body_passwordCurrent := Str cur,
                      body_password := Str ''newsecret'',
                      body_passwordConfirm := Str ''newsecret''\<rparr>\<rparr>"




section \<open>Facts about the store\<close>

lemma find_none_iff: "find p xs = None \<longleftrightarrow> (\<forall>x\<in>set xs. \<not> p x)"
  by (induction xs) auto

lemma find_some_member: "find p xs = Some x \<Longrightarrow> x \<in> set xs \<and> p x"
  by (induction xs) (auto split: if_splits)

text \<open>After an update by id, a document of the store is an old one with another id, or
  the image of the old one with that id; ids that repeat are the only other case.\<close>

lemma updateOne_members:
  "v \<in> set (updateOne i f st) \<Longrightarrow>
     (v \<in> set st \<and> uid v \<noteq> i) \<or> (\<exists>w\<in>set st. uid w = i \<and> v = f w)
     \<or> (v \<in> set st \<and> \<not> distinct (map uid st))"
proof (induction st)
  case Nil
  then show ?case by simp
next
  case (Cons a st)
  show ?case
  proof (cases "uid a = i")
    case True
    with Cons.prems have "v = f a \<or> v \<in> set st" by simp
    then show ?thesis
    proof
      assume "v = f a" with True show ?thesis by auto
    next
      assume v: "v \<in> set st"
      show ?thesis
      proof (cases "uid v = i")
        case False with v show ?thesis by simp
      next
        case uv: True
        from v have "uid v \<in> uid ` set st" by (rule imageI)
        with uv True have "uid a \<in> set (map uid st)" by simp
        then have "\<not> distinct (map uid (a # st))" by simp
        with v show ?thesis by simp
      qed
    qed
  next
    case False
    with Cons.prems have "v = a \<or> v \<in> set (updateOne i f st)" by simp
    then show ?thesis
    proof
      assume "v = a" with False show ?thesis by simp
    next
      assume "v \<in> set (updateOne i f st)"
      from Cons.IH [OF this] show ?thesis by auto
    qed
  qed
qed

lemma find_updateOne:
  "(\<And>w. uid (f w) = i) \<Longrightarrow>
     find (\<lambda>v. uid v = i) (updateOne i f st) = map_option f (find (\<lambda>v. uid v = i) st)"
  by (induction st) auto

lemma updateOne_compose:
  "(\<And>w. uid (f w) = i) \<Longrightarrow> (\<And>w. g (f w) = h w) \<Longrightarrow>
     updateOne i g (updateOne i f st) = updateOne i h st"
  by (induction st) auto

lemma two_holders:
  "u \<in> set st \<Longrightarrow> v \<in> set st \<Longrightarrow> u \<noteq> v \<Longrightarrow> p u \<Longrightarrow> p v \<Longrightarrow> 2 \<le> length (filter p st)"
proof (induction st)
  case Nil
  then show ?case by simp
next
  case (Cons a st)
  have pos: "\<And>w. w \<in> set st \<Longrightarrow> p w \<Longrightarrow> 1 \<le> length (filter p st)"
    by (metis One_nat_def Suc_leI filter_empty_conv length_greater_0_conv)
  show ?case
  proof (cases "a = u")
    case True
    with Cons.prems have "v \<in> set st" by auto
    from pos [OF this \<open>p v\<close>] True \<open>p u\<close> show ?thesis by simp
  next
    case au: False
    show ?thesis
    proof (cases "a = v")
      case True
      with Cons.prems au have "u \<in> set st" by auto
      from pos [OF this \<open>p u\<close>] True \<open>p v\<close> show ?thesis by simp
    next
      case False
      with au Cons.prems have "u \<in> set st" "v \<in> set st" by auto
      from Cons.IH [OF this \<open>u \<noteq> v\<close> \<open>p u\<close> \<open>p v\<close>] show ?thesis
        by (simp add: le_Suc_eq)
    qed
  qed
qed

text \<open>What a successful save did.\<close>

lemma save_Inr:
  "save sv now ent val md u st = Inr (u2, st1) \<Longrightarrow>
     uid u2 = uid u \<and> passwordResetToken u2 = passwordResetToken u
     \<and> passwordResetExpires u2 = passwordResetExpires u
     \<and> st1 = updateOne (uid u)
               (\<lambda>stored. u2\<lparr>password := (if md then password u2 else password stored)\<rparr>) st"
  by (auto simp: save_def pre_save_hash_def pre_save_changedAt_def Let_def
      split: option.splits if_splits sum.splits)

lemma save_unvalidated:
  "save sv now ent False False u st
     = Inr (u, updateOne (uid u) (\<lambda>stored. u\<lparr>password := password stored\<rparr>) st)"
  by (simp add: save_def pre_save_hash_def pre_save_changedAt_def)

lemma length_toHex: "length (toHex bs) = 2 * length bs"
  by (induction bs) auto

lemma hex_digit_in: "hex_digit b \<in> set ''0123456789abcdef''"
proof -
  have "b AND 15 \<le> 15" by (rule word_and_le1)
  then have "unat (b AND 15) \<le> unat (15 :: 8 word)" by (simp only: word_le_nat_alt)
  then have "unat (b AND 15) < length ''0123456789abcdef''" by simp
  then show ?thesis unfolding hex_digit_def by (rule nth_mem)
qed

lemma set_toHex: "set (toHex bs) \<subseteq> set ''0123456789abcdef''"
  by (induction bs) (use hex_digit_in in auto)

section \<open>Facts about bytes and their encodings\<close>

lemma word8_eqI: "(\<And>n. n < 8 \<Longrightarrow> bit a n = bit b n) \<Longrightarrow> a = b" for a b :: "8 word"
  by (rule bit_word_eqI) simp

lemma unat_and_15: "unat (x AND 15) < 16" for x :: "8 word"
proof -
  have "x AND 15 \<le> 15" by (rule word_and_le1)
  then have "unat (x AND 15) \<le> unat (15 :: 8 word)" by (simp only: word_le_nat_alt)
  then show ?thesis by simp
qed

lemma hex_index_inj:
  "i < 16 \<Longrightarrow> j < 16 \<Longrightarrow> ''0123456789abcdef'' ! i = ''0123456789abcdef'' ! j \<Longrightarrow> i = j"
proof -
  have d: "distinct ''0123456789abcdef''" by simp
  assume "i < 16" "j < 16" "''0123456789abcdef'' ! i = ''0123456789abcdef'' ! j"
  with nth_eq_iff_index_eq [OF d, of i j] show "i = j" by simp
qed

lemma hex_digit_inj: "hex_digit x = hex_digit y \<Longrightarrow> x AND 15 = y AND 15"
proof -
  assume "hex_digit x = hex_digit y"
  then have "unat (x AND 15) = unat (y AND 15)"
    unfolding hex_digit_def
    by (rule hex_index_inj [OF unat_and_15 unat_and_15])
  then show ?thesis by (simp only: word_unat_eq_iff)
qed

lemma bit_15: "bit (15 :: 8 word) k \<longleftrightarrow> k < 4"
proof -
  have m: "(15 :: 8 word) = mask 4" by (simp add: mask_eq_exp_minus_1)
  have "bit (mask 4 :: 8 word) k \<longleftrightarrow> k < 4"
    by (simp only: bit_mask_iff) auto
  then show ?thesis by (simp only: m)
qed

lemma bit_and_15: "bit (x AND 15) k \<longleftrightarrow> bit x k \<and> k < 4" for x :: "8 word"
  by (simp only: bit_and_iff bit_15)

lemma byte_from_nibbles:
  fixes a b :: "8 word"
  assumes hi: "drop_bit 4 a AND 15 = drop_bit 4 b AND 15" and lo: "a AND 15 = b AND 15"
  shows "a = b"
proof (rule word8_eqI)
  fix n :: nat assume n: "n < 8"
  have h: "bit (drop_bit 4 a AND 15) k = bit (drop_bit 4 b AND 15) k" for k
    by (simp only: hi)
  have h': "bit a (4 + k) = bit b (4 + k)" if "k < 4" for k
    using h [of k] that by (simp only: bit_and_15 bit_drop_bit_eq) simp
  have l: "bit (a AND 15) k = bit (b AND 15) k" for k
    by (simp only: lo)
  have l': "bit a k = bit b k" if "k < 4" for k
    using l [of k] that by (simp only: bit_and_15) simp
  show "bit a n = bit b n"
  proof (cases "n < 4")
    case True
    then show ?thesis by (rule l')
  next
    case False
    with n have "n - 4 < 4" by simp
    from h' [OF this] False show ?thesis by simp
  qed
qed

lemma toHex_inj: "length xs = length ys \<Longrightarrow> toHex xs = toHex ys \<Longrightarrow> xs = ys"
proof (induction xs ys rule: list_induct2)
  case Nil
  then show ?case by simp
next
  case (Cons x xs y ys)
  from Cons.prems
  have "hex_digit (drop_bit 4 x) # hex_digit x # toHex xs
          = hex_digit (drop_bit 4 y) # hex_digit y # toHex ys"
    by (simp only: toHex.simps)
  then have d: "hex_digit (drop_bit 4 x) = hex_digit (drop_bit 4 y)"
    "hex_digit x = hex_digit y" and r: "toHex xs = toHex ys"
    by (simp_all only: list.inject)
  have "x = y" by (rule byte_from_nibbles [OF hex_digit_inj [OF d(1)] hex_digit_inj [OF d(2)]])
  with Cons.IH [OF r] show ?case by (simp only:)
qed

































section \<open>Facts about validation and signup\<close>

lemma toLowerCase_examples:
  "toLowerCase ''A@B.com'' = ''a@b.com''"
  "toLowerCase ''a@b.com'' = ''a@b.com''"
  "toLowerCase ''nobody@b.com'' = ''nobody@b.com''"
  by code_simp+





section \<open>Token freshness in protect\<close>

text \<open>
  C1, as the claim states it, fails: the document \<open>carol\<close> has
  \<open>passwordChangedAt\<close> at 5000 ms, the token \<open>''t5''\<close> verifies with \<open>iat = 5\<close>, the
  same second, and \<^verbatim>\<open>protect\<close> forwards the request with the user attached instead
  of rejecting the token as stale.
\<close>

theorem protect_equal_second_counterexample:
  "passwordChangedAt carol = Some 5000
   \<and> jwt_verify test_services ''t5'' 9000 = Some \<lparr>pid = 1, iat = 5\<rparr>
   \<and> iat \<lparr>pid = 1, iat = 5\<rparr> = seconds_of 5000
   \<and> protect test_services [carol] 9000 (bearer_request ''t5'') = NextUser (deselect carol)"
  by (simp add: carol_def alice_def seconds_of_def test_services_def protect_def
      bearer_token_def bearer_request_def empty_request_def empty_body_def truthy_def
      second_def findById_def changedPasswordAfter_def deselect_def)

text \<open>
  C1, amended: for a user record with \<open>passwordChangedAt\<close> set and a verified bearer
  token, \<^verbatim>\<open>protect\<close> rejects the token as stale exactly when its \<open>iat\<close> is strictly
  before \<open>passwordChangedAt\<close> cut to whole seconds, and grants access otherwise; a
  token whose \<open>iat\<close> equals that second is accepted.
\<close>

theorem protect_freshness:
  assumes "bearer_token req = Some token" and "token \<noteq> []"
    and "jwt_verify sv token now = Some decoded"
    and "findById (pid decoded) st = Some currentUser"
    and "passwordChangedAt currentUser = Some t"
  shows "protect sv st now req =
           (if iat decoded < seconds_of t
            then Respond 401 ''fail'' ''User recently changed password! Please log in again.''
            else NextUser currentUser)"
  using assms by (simp add: protect_def changedPasswordAfter_def)

theorem protect_freshness_witness:
  "bearer_token (bearer_request ''t5'') = Some ''t5''
   \<and> bearer_token (bearer_request ''t4'') = Some ''t4''
   \<and> passwordChangedAt (deselect carol) = Some 5000
   \<and> protect test_services [carol] 9000 (bearer_request ''t5'') = NextUser (deselect carol)
   \<and> protect test_services [carol] 9000 (bearer_request ''t4'')
       = Respond 401 ''fail'' ''User recently changed password! Please log in again.''"
proof -
  have b5: "bearer_token (bearer_request ''t5'') = Some ''t5''"
    by (simp add: bearer_token_def bearer_request_def empty_request_def second_def)
  have b4: "bearer_token (bearer_request ''t4'') = Some ''t4''"
    by (simp add: bearer_token_def bearer_request_def empty_request_def second_def)
  have v5: "jwt_verify test_services ''t5'' 9000 = Some \<lparr>pid = 1, iat = 5\<rparr>"
    by (simp add: test_services_def)
  have v4: "jwt_verify test_services ''t4'' 9000 = Some \<lparr>pid = 1, iat = 4\<rparr>"
    by (simp add: test_services_def)
  have f: "findById (pid \<lparr>pid = 1, iat = 5\<rparr>) [carol] = Some (deselect carol)"
    "findById (pid \<lparr>pid = 1, iat = 4\<rparr>) [carol] = Some (deselect carol)"
    by (simp_all add: findById_def carol_def alice_def)
  have c: "passwordChangedAt (deselect carol) = Some 5000"
    by (simp add: deselect_def carol_def)
  show ?thesis
    using protect_freshness [OF b5 _ v5 f(1) c] protect_freshness [OF b4 _ v4 f(2) c] b5 b4 c
    by (simp add: seconds_of_def)
qed

section \<open>Reset-token verification\<close>

text \<open>
  C2: when no user has a stored \<open>passwordResetToken\<close> equal to the SHA-256 digest of
  the supplied raw token together with a \<open>passwordResetExpires\<close> strictly after the
  clock, \<^verbatim>\<open>resetPassword\<close> answers 400 with the invalid-or-expired message and leaves
  the store as it was. So a password changes only when such a user exists.
\<close>

theorem resetPassword_needs_valid_token:
  assumes "\<not> (\<exists>u\<in>set st. \<exists>e. passwordResetToken u = Some (sha256 sv (params_token req))
                 \<and> passwordResetExpires u = Some e \<and> now < e)"
  shows "resetPassword sv st now ent req
           = (Respond 400 ''fail'' ''Token is invalid or has expired'', st)"
proof -
  have "\<forall>u\<in>set st. \<not> reset_filter (sha256 sv (params_token req)) now u"
    using assms by (auto simp: reset_filter_def split: option.splits)
  then have "find (reset_filter (sha256 sv (params_token req)) now) st = None"
    by (simp add: find_none_iff)
  then show ?thesis
    by (simp add: resetPassword_def findOne_def)
qed

text \<open>The correct raw token, submitted at the instant the ten minutes end.\<close>

theorem resetPassword_needs_valid_token_witness:
  "passwordResetToken dave = Some (sha256 test_services (params_token reset_request))
   \<and> passwordResetExpires dave = Some (1000 + 10 * 60 * 1000)
   \<and> resetPassword test_services [dave] 601000 zero_entropy reset_request
       = (Respond 400 ''fail'' ''Token is invalid or has expired'', [dave])"
proof -
  have "\<not> (\<exists>u\<in>set [dave]. \<exists>e. passwordResetToken u
               = Some (sha256 test_services (params_token reset_request))
             \<and> passwordResetExpires u = Some e \<and> 601000 < e)"
    by (simp add: dave_def)
  from resetPassword_needs_valid_token [OF this] show ?thesis
    by (simp add: dave_def test_services_def reset_request_def)
qed

text \<open>
  C3, as the claim states it, fails: the documents \<open>dave\<close> and \<open>erin\<close> hold the same
  digest with an expiry in the future. The first submission of the raw token resets
  the password of \<open>dave\<close>; submitted again against the resulting store, the same raw
  token succeeds once more and resets the password of \<open>erin\<close>.
\<close>

theorem reset_token_shared_digest_counterexample:
  "passwordResetToken dave = Some (sha256 test_services (params_token reset_request))
   \<and> passwordResetToken erin = Some (sha256 test_services (params_token reset_request))
   \<and> resetPassword test_services [dave, erin] 2000 zero_entropy reset_request
       = (SendToken 200 ''t5'' (alice\<lparr>password := None, passwordChangedAt := Some 1000\<rparr>),
          [alice\<lparr>password := Some ''$2a$0$newsecret'', passwordChangedAt := Some 1000\<rparr>,
           erin])
   \<and> resetPassword test_services
         [alice\<lparr>password := Some ''$2a$0$newsecret'', passwordChangedAt := Some 1000\<rparr>, erin]
         3000 zero_entropy reset_request
       = (SendToken 200 ''t5''
            (erin\<lparr>password := None, passwordChangedAt := Some 2000,
                  passwordResetToken := None, passwordResetExpires := None\<rparr>),
          [alice\<lparr>password := Some ''$2a$0$newsecret'', passwordChangedAt := Some 1000\<rparr>,
           erin\<lparr>password := Some ''$2a$0$newsecret'', passwordChangedAt := Some 2000,
                 passwordResetToken := None, passwordResetExpires := None\<rparr>])"
  by (simp add: resetPassword_def findOne_def reset_filter_def dave_def erin_def alice_def
      reset_request_def empty_request_def empty_body_def test_services_def deselect_def
      save_def validation_error_def path_validators_def truthy_def minlength_def
      matches_def in_enum_def role_enum_def pre_save_hash_def pre_save_changedAt_def
      createSendToken_def signToken_def hex_digit_def Let_def cast_string_def
      zero_entropy_def)

text \<open>
  C3, amended: in a store in which at most one document holds the digest of the raw
  token (and ids are distinct, as in every collection), once \<^verbatim>\<open>resetPassword\<close> has
  succeeded with that token, the user's stored \<open>passwordResetToken\<close> and
  \<open>passwordResetExpires\<close> are cleared and any later submission of the same raw token
  against the resulting store answers 400 with the invalid-or-expired message and
  changes nothing.
\<close>

theorem reset_token_single_use:
  assumes ok: "resetPassword sv st now ent req = (SendToken 200 tok usr, st')"
    and ids: "distinct (map uid st)"
    and one: "length (filter (\<lambda>u. passwordResetToken u = Some (sha256 sv (params_token req))) st) \<le> 1"
    and same: "params_token req2 = params_token req"
  shows "resetPassword sv st' now2 ent2 req2
           = (Respond 400 ''fail'' ''Token is invalid or has expired'', st')
         \<and> (\<exists>w. findById (uid usr) st' = Some w
                \<and> passwordResetToken w = None \<and> passwordResetExpires w = None)"
proof -
  let ?h = "sha256 sv (params_token req)"
  let ?p = "\<lambda>u. passwordResetToken u = Some ?h"
  obtain u where fu: "find (reset_filter ?h now) st = Some u"
    using ok by (auto simp: resetPassword_def findOne_def Let_def split: option.splits)
  let ?u1 = "(deselect u)\<lparr>password := cast_string (body_password (req_body req)),
                passwordConfirm := cast_string (body_passwordConfirm (req_body req)),
                passwordResetToken := None, passwordResetExpires := None\<rparr>"
  obtain u2 where sv: "save sv now ent True True ?u1 st = Inr (u2, st')"
    and usr: "usr = u2\<lparr>password := None\<rparr>"
    using ok fu
    by (auto simp: resetPassword_def findOne_def Let_def createSendToken_def
        split: sum.splits)
  from save_Inr [OF sv]
  have u2: "uid u2 = uid u" "passwordResetToken u2 = None" "passwordResetExpires u2 = None"
    and st': "st' = updateOne (uid u) (\<lambda>stored. u2\<lparr>password := password u2\<rparr>) st"
    by (simp_all add: deselect_def)
  from find_some_member [OF fu] have uin: "u \<in> set st" and pu: "?p u"
    by (simp_all add: reset_filter_def)
  have "\<not> ?p v" if v: "v \<in> set st'" for v
  proof
    assume pv: "?p v"
    from v st' updateOne_members [of v "uid u" _ st] ids
    consider "v \<in> set st" "uid v \<noteq> uid u" | "v = u2\<lparr>password := password u2\<rparr>"
      by auto
    then show False
    proof cases
      case 1
      then have "u \<noteq> v" by auto
      from two_holders [of u st v ?p, OF uin 1(1) this pu pv] one show False by simp
    next
      case 2
      with pv u2 show False by simp
    qed
  qed
  then have "find (reset_filter (sha256 sv (params_token req2)) now2) st' = None"
    by (simp add: find_none_iff reset_filter_def same)
  then have first: "resetPassword sv st' now2 ent2 req2
           = (Respond 400 ''fail'' ''Token is invalid or has expired'', st')"
    by (simp add: resetPassword_def findOne_def)
  from uin have "find (\<lambda>v. uid v = uid u) st \<noteq> None"
    by (auto simp: find_none_iff)
  then obtain w0 where "find (\<lambda>v. uid v = uid u) st = Some w0" by auto
  then have "find (\<lambda>v. uid v = uid u) st' = Some (u2\<lparr>password := password u2\<rparr>)"
    unfolding st' using u2(1) by (subst find_updateOne) simp_all
  then have "findById (uid usr) st' = Some (deselect (u2\<lparr>password := password u2\<rparr>))"
    by (simp add: findById_def usr u2(1))
  with u2 have "\<exists>w. findById (uid usr) st' = Some w
                \<and> passwordResetToken w = None \<and> passwordResetExpires w = None"
    by (simp add: deselect_def)
  with first show ?thesis by simp
qed

text \<open>A store of two documents with pending resets under different tokens.\<close>

theorem reset_token_single_use_witness:
  "resetPassword test_services [dave, frank] 2000 zero_entropy reset_request
     = (SendToken 200 ''t5'' (alice\<lparr>password := None, passwordChangedAt := Some 1000\<rparr>),
        [alice\<lparr>password := Some ''$2a$0$newsecret'', passwordChangedAt := Some 1000\<rparr>, frank])
   \<and> distinct (map uid [dave, frank])
   \<and> length (filter (\<lambda>u. passwordResetToken u
               = Some (sha256 test_services (params_token reset_request))) [dave, frank]) \<le> 1
   \<and> resetPassword test_services
        [alice\<lparr>password := Some ''$2a$0$newsecret'', passwordChangedAt := Some 1000\<rparr>, frank]
        3000 zero_entropy reset_request
     = (Respond 400 ''fail'' ''Token is invalid or has expired'',
        [alice\<lparr>password := Some ''$2a$0$newsecret'', passwordChangedAt := Some 1000\<rparr>, frank])"
proof -
  have ok: "resetPassword test_services [dave, frank] 2000 zero_entropy reset_request
     = (SendToken 200 ''t5'' (alice\<lparr>password := None, passwordChangedAt := Some 1000\<rparr>),
        [alice\<lparr>password := Some ''$2a$0$newsecret'', passwordChangedAt := Some 1000\<rparr>, frank])"
    by (simp add: resetPassword_def findOne_def reset_filter_def dave_def alice_def
        reset_request_def empty_request_def empty_body_def test_services_def deselect_def
        save_def validation_error_def path_validators_def truthy_def minlength_def
        matches_def in_enum_def role_enum_def pre_save_hash_def pre_save_changedAt_def
        createSendToken_def signToken_def hex_digit_def Let_def cast_string_def
        zero_entropy_def)
  have ids: "distinct (map uid [dave, frank])"
    by (simp add: dave_def frank_def erin_def alice_def)
  have one: "length (filter (\<lambda>u. passwordResetToken u
               = Some (sha256 test_services (params_token reset_request))) [dave, frank]) \<le> 1"
    by (simp add: dave_def frank_def erin_def test_services_def reset_request_def)
  from reset_token_single_use [OF ok ids one refl, of 3000 zero_entropy] ok ids one
  show ?thesis by simp
qed

section \<open>Reset-token generation\<close>

text \<open>
  C4: at clock \<open>now\<close> the generator reads 32 bytes from the random source and returns
  their hex encoding, 64 hex digits, as the raw token; the raw token determines every
  one of the 32 bytes read. It assigns to the user record the SHA-256 digest of that
  raw token and the expiry \<open>now\<close> plus ten minutes; no other field of the record
  changes, so the record receives the raw token only through its digest.
\<close>

theorem createPasswordResetToken_contract:
  assumes "createPasswordResetToken sv now ent u = (resetToken, u')"
  shows "resetToken = toHex (map ent [0..<32])
         \<and> length resetToken = 64
         \<and> set resetToken \<subseteq> set ''0123456789abcdef''
         \<and> (\<forall>sv' now' ent' v. fst (createPasswordResetToken sv' now' ent' v) = resetToken
                \<longrightarrow> (\<forall>i<32. ent' i = ent i))
         \<and> passwordResetToken u' = Some (sha256 sv resetToken)
         \<and> passwordResetExpires u' = Some (now + 10 * 60 * 1000)
         \<and> u'\<lparr>passwordResetToken := passwordResetToken u,
               passwordResetExpires := passwordResetExpires u\<rparr> = u"
proof -
  from assms have t: "resetToken = toHex (map ent [0..<32])"
    and u': "u' = u\<lparr>passwordResetToken := Some (sha256 sv resetToken),
                     passwordResetExpires := Some (now + 10 * 60 * 1000)\<rparr>"
    by (auto simp: createPasswordResetToken_def Let_def randomBytes_def)
  have inj: "ent' i = ent i"
    if "fst (createPasswordResetToken sv' now' ent' v) = resetToken" and "i < 32"
    for sv' now' ent' v i
  proof -
    from that(1) have "toHex (map ent' [0..<32]) = toHex (map ent [0..<32])"
      by (simp add: createPasswordResetToken_def Let_def randomBytes_def t)
    then have "map ent' [0..<32] = map ent [0..<32]"
      by (rule toHex_inj [rotated]) simp
    with that(2) show ?thesis by simp
  qed
  have "length resetToken = 64" by (simp add: t length_toHex)
  moreover have "set resetToken \<subseteq> set ''0123456789abcdef''"
    unfolding t by (rule set_toHex)
  ultimately show ?thesis using t u' inj by simp
qed

theorem createPasswordResetToken_contract_witness:
  "createPasswordResetToken test_services 1000 test_entropy alice
     = (''cbc4bdb6afa8a19a938c857e777069625b544d463f38312a231c150e0700f9f2'',
        alice\<lparr>passwordResetToken :=
                  Some ''h(cbc4bdb6afa8a19a938c857e777069625b544d463f38312a231c150e0700f9f2)'',
               passwordResetExpires := Some 601000\<rparr>)"
proof -
  obtain t u' where r: "createPasswordResetToken test_services 1000 test_entropy alice = (t, u')"
    by (cases "createPasswordResetToken test_services 1000 test_entropy alice")
  have bytes: "toHex (map test_entropy [0..<32])
                 = ''cbc4bdb6afa8a19a938c857e777069625b544d463f38312a231c150e0700f9f2''"
    by code_simp
  from createPasswordResetToken_contract [OF r]
  have "t = toHex (map test_entropy [0..<32])"
    and "u'\<lparr>passwordResetToken := passwordResetToken alice,
               passwordResetExpires := passwordResetExpires alice\<rparr> = alice"
    and "passwordResetToken u' = Some (sha256 test_services t)"
    and "passwordResetExpires u' = Some (1000 + 10 * 60 * 1000)"
    by simp_all
  then show ?thesis unfolding r bytes
    by (cases u') (simp add: alice_def test_services_def)
qed

section \<open>Forgot password\<close>

text \<open>
  C5: when the email of the request belongs to a user and the delivery of the reset
  mail fails, \<^verbatim>\<open>forgotPassword\<close> answers 500 and the stored record of that user
  has \<open>passwordResetToken\<close> and \<open>passwordResetExpires\<close> both cleared.
\<close>

theorem forgotPassword_rollback:
  assumes found: "findOne (email_filter (body_email (req_body req))) st = Some u"
    and failed: "\<not> sendEmail sv
                     \<lparr>mail_email = email u,
                      mail_subject = ''Your password reset token (valid for 10 min)'',
                      mail_message = FRONTEND_URL sv @ ''/change-password?token=''
                                       @ toHex (randomBytes 32 ent)\<rparr>"
  shows "forgotPassword sv st now ent req
           = (Respond 500 ''fail'' ''There was an error sending the email. Try again later!'',
              updateOne (uid u)
                (\<lambda>stored. u\<lparr>password := password stored, passwordResetToken := None,
                             passwordResetExpires := None\<rparr>) st)
         \<and> findById (uid u) (snd (forgotPassword sv st now ent req))
             = Some (u\<lparr>passwordResetToken := None, passwordResetExpires := None\<rparr>)"
proof -
  let ?u1 = "u\<lparr>passwordResetToken := Some (sha256 sv (toHex (randomBytes 32 ent))),
               passwordResetExpires := Some (now + 10 * 60 * 1000)\<rparr>"
  let ?u3 = "?u1\<lparr>passwordResetToken := None, passwordResetExpires := None\<rparr>"
  let ?f = "\<lambda>stored. u\<lparr>password := password stored, passwordResetToken := None,
                             passwordResetExpires := None\<rparr>"
  have twice: "updateOne (uid u) (\<lambda>stored. ?u3\<lparr>password := password stored\<rparr>)
                 (updateOne (uid u) (\<lambda>stored. ?u1\<lparr>password := password stored\<rparr>) st)
               = updateOne (uid u) ?f st"
    by (rule updateOne_compose) simp_all
  have run: "forgotPassword sv st now ent req
           = (Respond 500 ''fail'' ''There was an error sending the email. Try again later!'',
              updateOne (uid u) ?f st)"
    using found failed twice
    by (simp add: forgotPassword_def createPasswordResetToken_def Let_def save_unvalidated)
  obtain w where w: "find (email_filter (body_email (req_body req))) st = Some w"
    and u: "u = deselect w"
    using found by (auto simp: findOne_def)
  from find_some_member [OF w] have "w \<in> set st" by simp
  then have "find (\<lambda>v. uid v = uid u) st \<noteq> None"
    by (auto simp: find_none_iff u deselect_def)
  then obtain w0 where "find (\<lambda>v. uid v = uid u) st = Some w0" by auto
  then have "find (\<lambda>v. uid v = uid u) (updateOne (uid u) ?f st) = Some (?f w0)"
    by (subst find_updateOne) simp_all
  then have "findById (uid u) (updateOne (uid u) ?f st)
               = Some (u\<lparr>passwordResetToken := None, passwordResetExpires := None\<rparr>)"
    by (simp add: findById_def deselect_def u)
  with run show ?thesis by simp
qed

text \<open>The request names the stored address \<open>a@b.com\<close> in capitals.\<close>

theorem forgotPassword_rollback_witness:
  "body_email (req_body forgot_request) = Str ''A@B.com''
   \<and> findOne (email_filter (body_email (req_body forgot_request))) [dave] = Some (deselect dave)
   \<and> forgotPassword test_services [dave] 1000 test_entropy forgot_request
       = (Respond 500 ''fail'' ''There was an error sending the email. Try again later!'',
          [alice])"
proof -
  have found: "findOne (email_filter (body_email (req_body forgot_request))) [dave]
                 = Some (deselect dave)"
    by (simp add: findOne_def forgot_request_def empty_request_def empty_body_def dave_def
        alice_def email_filter_def cast_string_def toLowerCase_examples)
  have failed: "\<not> sendEmail test_services
                     \<lparr>mail_email = email (deselect dave),
                      mail_subject = ''Your password reset token (valid for 10 min)'',
                      mail_message = FRONTEND_URL test_services @ ''/change-password?token=''
                                       @ toHex (randomBytes 32 test_entropy)\<rparr>"
    by (simp add: test_services_def)
  from forgotPassword_rollback [OF found failed, of 1000] found show ?thesis
    by (simp add: dave_def alice_def deselect_def forgot_request_def)
qed

section \<open>Login\<close>

text \<open>
  With a password that is a string, a login with an email that no user has and a login
  with an existing email and a password that does not match get the same response.
\<close>

lemma login_string_password_uniform:
  assumes "truthy_val (body_email (req_body req1))"
    and "truthy_val (body_email (req_body req2))"
    and "body_password (req_body req1) = Str p1" and "p1 \<noteq> []"
    and "body_password (req_body req2) = Str p2" and "p2 \<noteq> []"
    and unknown: "findOne_select_password (email_filter (body_email (req_body req1))) st = None"
    and known: "findOne_select_password (email_filter (body_email (req_body req2))) st = Some u"
    and wrong: "correctPassword sv (Str p2) (password u) = Inr False"
  shows "login sv st now1 req1 = login sv st now2 req2
         \<and> login sv st now1 req1 = Respond 401 ''fail'' ''Incorrect email or password''"
  using assms by (simp add: login_def Let_def truthy_val_def)

text \<open>
  C6 fails on the code at a password that is present but not a string. With the body
  \<^verbatim>\<open>{"email": ..., "password": 12345678}\<close> an email that no user has gets the 401
  response, while the email of the stored user \<open>alice\<close> makes \<^verbatim>\<open>bcrypt.compare\<close>
  reject and \<^verbatim>\<open>catchAsync\<close> pass the error on: the two responses differ, whatever the
  services and the clock.
\<close>

theorem login_number_password_signal:
  "login sv [alice] now (login_request ''nobody@b.com'' (Num 12345678))
     = Respond 401 ''fail'' ''Incorrect email or password''
   \<and> login sv [alice] now (login_request ''a@b.com'' (Num 12345678))
     = Thrown ''Illegal arguments: number, string''"
  by (simp add: login_def login_request_def empty_request_def empty_body_def truthy_val_def
      findOne_select_password_def email_filter_def cast_string_def toLowerCase_examples
      alice_def correctPassword_def typeof_def Let_def)

theorem login_number_password_signal_witness:
  "login test_services [alice] 2000 (login_request ''nobody@b.com'' (Num 12345678))
     \<noteq> login test_services [alice] 2000 (login_request ''a@b.com'' (Num 12345678))"
  using login_number_password_signal [of test_services 2000] by simp

section \<open>Update password\<close>

text \<open>
  C7: for an authenticated request whose \<open>passwordCurrent\<close> does not match the stored
  hash, \<^verbatim>\<open>updatePassword\<close> answers 401 and leaves the store, and with it the stored
  hash, as it was; whenever the handler changes the store, the current password was
  checked and matched.
\<close>

theorem updatePassword_wrong_current:
  "(findById_select_password (uid req_user) st = Some u
      \<and> correctPassword sv (body_passwordCurrent (req_body req)) (password u) = Inr False
    \<longrightarrow> updatePassword sv st now ent req_user req
          = (Respond 401 ''fail'' ''Your current password is wrong.'', st))
   \<and> (snd (updatePassword sv st now ent req_user req) \<noteq> st
    \<longrightarrow> (\<exists>v. findById_select_password (uid req_user) st = Some v
            \<and> correctPassword sv (body_passwordCurrent (req_body req)) (password v) = Inr True))"
  by (auto simp: updatePassword_def Let_def split: option.splits sum.splits)

theorem updatePassword_wrong_current_witness:
  "correctPassword test_services (body_passwordCurrent (req_body (update_request ''guess123'')))
       (password alice) = Inr False
   \<and> updatePassword test_services [alice] 2000 zero_entropy (deselect alice)
        (update_request ''guess123'')
       = (Respond 401 ''fail'' ''Your current password is wrong.'', [alice])
   \<and> snd (updatePassword test_services [alice] 2000 zero_entropy (deselect alice)
        (update_request ''oldsecret'')) \<noteq> [alice]
   \<and> correctPassword test_services (body_passwordCurrent (req_body (update_request ''oldsecret'')))
       (password alice) = Inr True"
proof -
  have f: "findById_select_password (uid (deselect alice)) [alice] = Some alice"
    by (simp add: findById_select_password_def deselect_def)
  have wrong: "correctPassword test_services
                 (body_passwordCurrent (req_body (update_request ''guess123'')))
                 (password alice) = Inr False"
    by (simp add: correctPassword_def update_request_def alice_def test_services_def)
  have changed: "snd (updatePassword test_services [alice] 2000 zero_entropy (deselect alice)
        (update_request ''oldsecret'')) \<noteq> [alice]"
    by (simp add: updatePassword_def findById_select_password_def deselect_def alice_def
        update_request_def empty_request_def empty_body_def test_services_def
        correctPassword_def save_def validation_error_def path_validators_def truthy_def
        minlength_def matches_def in_enum_def role_enum_def pre_save_hash_def
        pre_save_changedAt_def createSendToken_def signToken_def hex_digit_def Let_def
        cast_string_def zero_entropy_def)
  from updatePassword_wrong_current
         [of "deselect alice" "[alice]" alice test_services "update_request ''guess123''" 2000 zero_entropy]
       updatePassword_wrong_current
         [of "deselect alice" "[alice]" alice test_services "update_request ''oldsecret''" 2000 zero_entropy]
       f wrong changed
  show ?thesis by auto
qed

section \<open>Signup and the stored password\<close>




section \<open>The soft middleware\<close>

text \<open>
  C9: \<^verbatim>\<open>isLoggedIn\<close> always forwards the request, never with an error, and it
  attaches a user exactly when the cookie holds a token that verifies, the subject is in
  the store, and \<^verbatim>\<open>changedPasswordAfter\<close> is false for the token's \<open>iat\<close>.
\<close>

theorem isLoggedIn_never_rejects:
  "(isLoggedIn sv st now req = Next \<or> (\<exists>u. isLoggedIn sv st now req = NextUser u))
   \<and> (isLoggedIn sv st now req = NextUser u
        \<longleftrightarrow> (\<exists>c decoded. cookies_jwt req = Some c \<and> c \<noteq> []
               \<and> jwt_verify sv c now = Some decoded
               \<and> findById (pid decoded) st = Some u
               \<and> \<not> changedPasswordAfter u (iat decoded)))"
  by (auto simp: isLoggedIn_def split: option.splits)

theorem isLoggedIn_never_rejects_witness:
  "isLoggedIn test_services [carol] 9000 (empty_request\<lparr>cookies_jwt := Some ''t5''\<rparr>)
     = NextUser (deselect carol)
   \<and> isLoggedIn test_services [carol] 9000 (empty_request\<lparr>cookies_jwt := Some ''t4''\<rparr>) = Next
   \<and> isLoggedIn test_services [carol] 9000 (empty_request\<lparr>cookies_jwt := Some ''bad''\<rparr>) = Next
   \<and> isLoggedIn test_services [] 9000 (empty_request\<lparr>cookies_jwt := Some ''t5''\<rparr>) = Next
   \<and> isLoggedIn test_services [carol] 9000 empty_request = Next"
proof -
  have c5: "changedPasswordAfter (deselect carol) 5 = False"
    and c4: "changedPasswordAfter (deselect carol) 4 = True"
    by (simp_all add: changedPasswordAfter_def carol_def deselect_def seconds_of_def)
  have f: "findById 1 [carol] = Some (deselect carol)" "findById 1 [] = None"
    by (simp_all add: findById_def carol_def alice_def)
  have v: "jwt_verify test_services ''t5'' 9000 = Some \<lparr>pid = 1, iat = 5\<rparr>"
    "jwt_verify test_services ''t4'' 9000 = Some \<lparr>pid = 1, iat = 4\<rparr>"
    "jwt_verify test_services ''bad'' 9000 = None"
    by (simp_all add: test_services_def)
  note w = isLoggedIn_never_rejects [of test_services _ 9000 _ "deselect carol"]
  have 1: "isLoggedIn test_services [carol] 9000 (empty_request\<lparr>cookies_jwt := Some ''t5''\<rparr>)
     = NextUser (deselect carol)"
    using w [of "[carol]" "empty_request\<lparr>cookies_jwt := Some ''t5''\<rparr>"] v f c5 by simp
  have 2: "isLoggedIn test_services [carol] 9000 (empty_request\<lparr>cookies_jwt := Some ''t4''\<rparr>) = Next"
    using w [of "[carol]" "empty_request\<lparr>cookies_jwt := Some ''t4''\<rparr>"] v f c4
      isLoggedIn_never_rejects [of test_services "[carol]" 9000  "empty_request\<lparr>cookies_jwt := Some ''t4''\<rparr>"]
    by auto
  have 3: "isLoggedIn test_services [carol] 9000 (empty_request\<lparr>cookies_jwt := Some ''bad''\<rparr>) = Next"
    "isLoggedIn test_services [] 9000 (empty_request\<lparr>cookies_jwt := Some ''t5''\<rparr>) = Next"
    "isLoggedIn test_services [carol] 9000 empty_request = Next"
    by (simp_all add: isLoggedIn_def test_services_def findById_def empty_request_def)
  show ?thesis
    using 1 2 3 by simp
qed

section \<open>Admin protection\<close>

text \<open>
  C10: when the user that the id of the request resolves to has one of the roles of the
  schema's enumeration, \<^verbatim>\<open>adminProtection\<close> forwards the request without error.
\<close>

theorem adminProtection_enum_roles:
  assumes "\<forall>u. findById (params_id req) st = Some u
              \<longrightarrow> role u \<in> {Some ''customer'', Some ''engineer'', Some ''admin''}"
  shows "adminProtection st req = Next"
  using assms by (auto simp: adminProtection_def split: option.splits)

theorem adminProtection_enum_roles_witness:
  "role (alice\<lparr>role := Some ''admin''\<rparr>) \<in> set (map Some role_enum)
   \<and> adminProtection [alice\<lparr>role := Some ''admin''\<rparr>] (empty_request\<lparr>params_id := 1\<rparr>) = Next"
proof -
  have "\<forall>u. findById (params_id (empty_request\<lparr>params_id := 1\<rparr>)) [alice\<lparr>role := Some ''admin''\<rparr>] = Some u
              \<longrightarrow> role u \<in> {Some ''customer'', Some ''engineer'', Some ''admin''}"
    by (simp add: findById_def alice_def deselect_def)
  from adminProtection_enum_roles [OF this] show ?thesis
    by (simp add: role_enum_def)
qed

end
